theory Spec2Isabelle
  imports Complex_Main
begin

section \<open>Tables read by \<open>get_cancer_df\<close>\<close>

text \<open>
  A data frame is a list of rows, in table order; a row is a record with one field per
  column. Text cells are strings. A cell of the score column is \<open>Some v\<close> for the
  number \<open>v\<close> that the frame holds, whole or fractional, and \<open>None\<close> for an empty
  spreadsheet cell (which the frame holds as NaN).

  \<open>metadata_row\<close> has the five columns of \<open>meta_data_columns_to_keep\<close>; a row of
  \<open>datasets/metadata.csv\<close> has these and the columns that are not kept.
\<close>

record metadata_row =
  Subject_ID :: string
  Modality :: string
  SOP_Class_Name :: string
  File_Location :: string
  Series_UID :: string

record metadata_csv_row = metadata_row +
  metadata_other_columns :: "(string \<times> string) list"

text \<open>
  \<open>target_row\<close> has the three columns of \<open>target_columns_to_keep\<close>; a row of sheet
  \<open>Sheet1\<close> of the spreadsheet has these and the columns that are not kept.
\<close>

record target_row =
  UCLA_Score_col :: "rat option"
  Patient_ID_col :: string
  seriesInstanceUID_US :: string

record target_xlsx_row = target_row +
  target_other_columns :: "(string \<times> string) list"

text \<open>
  The score table after \<open>seriesInstanceUID_US\<close> has been renamed to \<open>Series UID\<close> and
  the column \<open>cancer\<close> has been added.
\<close>

record target_data_row =
  target_UCLA_Score :: "rat option"
  target_Patient_ID :: string
  target_Series_UID :: string
  target_cancer :: bool

text \<open>A row of the merged frame: the metadata columns, then the remaining score columns.\<close>

record cancer_row = metadata_row +
  UCLA_Score :: "rat option"
  Patient_ID :: string
  cancer :: bool

section \<open>\<open>get_cancer_df\<close>\<close>

text \<open>
  The type of the score column as \<open>pd.read_excel\<close> infers it: whole numbers alone give
  a column of integers; an empty cell or a fractional number makes it a column of
  doubles (\<open>float64\<close>).
\<close>

definition is_integral :: "rat \<Rightarrow> bool" where
  "is_integral v = (of_int \<lfloor>v\<rfloor> = v)"

definition float64_column :: "rat option list \<Rightarrow> bool" where
  "float64_column cells =
     list_ex (\<lambda>c. case c of None \<Rightarrow> True | Some v \<Rightarrow> \<not> is_integral v) cells"

text \<open>
  The double that an integer is converted to: the nearest one, with 53 significant bits,
  a tie going to the even significand. An integer of magnitude up to \<open>2 ^ 53\<close> is a
  double itself.
\<close>

fun bit_length :: "nat \<Rightarrow> nat" where
  "bit_length n = (if n = 0 then 0 else Suc (bit_length (n div 2)))"

declare bit_length.simps [simp del]

definition float64_of_int :: "int \<Rightarrow> int" where
  "float64_of_int t =
     (let a = \<bar>t\<bar> in
      if a \<le> 2 ^ 53 then t
      else
        let e = bit_length (nat a) - 53;
            q = a div 2 ^ e;
            r = a mod 2 ^ e;
            m = (if 2 * r > 2 ^ e \<or> (2 * r = 2 ^ e \<and> odd q) then q + 1 else q)
        in sgn t * (m * 2 ^ e))"

text \<open>
  The number that the scores of a column are compared with in
  \<open>series >= threshold_for_cancer\<close>: the comparison is made in the type of the column,
  so in a column of doubles the threshold is converted to a double first. This is what
  the library does with a threshold that fits 64 bits, from \<open>- (2 ^ 63)\<close> to
  \<open>2 ^ 63 - 1\<close>; how a threshold outside is compared depends on the version of the
  library, and no statement below is about the labels at such a threshold.
\<close>

definition compared_threshold :: "rat option list \<Rightarrow> int \<Rightarrow> rat" where
  "compared_threshold cells threshold_for_cancer =
     (if float64_column cells then of_int (float64_of_int threshold_for_cancer)
      else of_int threshold_for_cancer)"

text \<open>The comparison of one cell: a comparison with NaN is false.\<close>

definition score_ge :: "rat option \<Rightarrow> rat \<Rightarrow> bool" where
  "score_ge cell threshold = (case cell of None \<Rightarrow> False | Some v \<Rightarrow> v \<ge> threshold)"

text \<open>
  \<open>metadata_df = metadata_df[meta_data_columns_to_keep]\<close> and then
  \<open>metadata_df = metadata_df[metadata_df["Modality"] == "US"]\<close>.
\<close>

definition metadata_df :: "metadata_csv_row list \<Rightarrow> metadata_row list" where
  "metadata_df metadata_csv =
     filter (\<lambda>r. Modality r = ''US'') (map metadata_row.truncate metadata_csv)"

text \<open>
  \<open>target_data_df = target_data_df[target_columns_to_keep]\<close>, the renaming of
  \<open>seriesInstanceUID_US\<close>, and the new column \<open>cancer\<close>.
\<close>

definition rename_and_label :: "rat \<Rightarrow> target_row \<Rightarrow> target_data_row" where
  "rename_and_label threshold r =
     \<lparr>target_UCLA_Score = UCLA_Score_col r,
      target_Patient_ID = Patient_ID_col r,
      target_Series_UID = seriesInstanceUID_US r,
      target_cancer = score_ge (UCLA_Score_col r) threshold\<rparr>"

definition target_data_df :: "int \<Rightarrow> target_xlsx_row list \<Rightarrow> target_data_row list" where
  "target_data_df threshold_for_cancer target_xlsx =
     (let rows = map target_row.truncate target_xlsx;
          threshold = compared_threshold (map UCLA_Score_col rows) threshold_for_cancer
      in map (rename_and_label threshold) rows)"

text \<open>
  \<open>pd.merge(left, right, on="Series UID")\<close>: the default \<open>how="inner"\<close>. Every left row
  is paired with every right row that has the same key; the rows come in the order of
  the left keys, and for one left row in the order of the right table. The two frames
  share no column name but the key, so no column is suffixed.
\<close>

definition merge_rows :: "metadata_row \<Rightarrow> target_data_row \<Rightarrow> cancer_row" where
  "merge_rows m t =
     \<lparr>Subject_ID = Subject_ID m,
      Modality = Modality m,
      SOP_Class_Name = SOP_Class_Name m,
      File_Location = File_Location m,
      Series_UID = Series_UID m,
      UCLA_Score = target_UCLA_Score t,
      Patient_ID = target_Patient_ID t,
      cancer = target_cancer t\<rparr>"

definition pd_merge :: "metadata_row list \<Rightarrow> target_data_row list \<Rightarrow> cancer_row list" where
  "pd_merge left right =
     concat (map (\<lambda>m. map (merge_rows m)
                         (filter (\<lambda>t. target_Series_UID t = Series_UID m) right)) left)"

text \<open>
  The two files are read before anything else; a failure to read one is raised there
  and nothing below runs. The function is modelled on the two tables read.
\<close>

definition get_cancer_df ::
  "int \<Rightarrow> metadata_csv_row list \<Rightarrow> target_xlsx_row list \<Rightarrow> cancer_row list" where
  "get_cancer_df threshold_for_cancer metadata_csv target_xlsx =
     pd_merge (metadata_df metadata_csv) (target_data_df threshold_for_cancer target_xlsx)"

section \<open>The world of \<open>create_image_datasets\<close>\<close>

text \<open>
  The exceptions that the calls of the function raise. \<open>IndexError\<close> is the one of
  \<open>os.listdir(...)[0]\<close> on an empty listing; the others are reported by the operating
  system or by the DICOM reader.
\<close>

datatype py_exception =
    FileNotFoundError
  | NotADirectoryError
  | PermissionError
  | FileExistsError
  | IndexError
  | InvalidDicomError
  | AttributeError

text \<open>
  What the function reads from outside, as it stands during the run: the working
  directory, the listing of a directory (or the exception of \<open>os.listdir\<close>), the
  pixel array of a file as the list of its slices, \<open>pixel_array[0]\<close>,
  \<open>pixel_array[1]\<close>, ... (or the exception of \<open>dicom.dcmread\<close> or of
  \<open>ds.pixel_array\<close>), the truth value that \<open>cv2.imwrite\<close> returns for a path and a
  slice, and the exception, if any, with which \<open>os.makedirs\<close> refuses a path.
\<close>

record 'px os_env =
  getcwd :: string
  listdir :: "string \<Rightarrow> py_exception + string list"
  dcmread_pixel_array :: "string \<Rightarrow> py_exception + 'px list"
  imwrite :: "string \<Rightarrow> 'px \<Rightarrow> bool"
  makedirs_refused :: "string \<Rightarrow> py_exception option"

text \<open>What the function does to the outside, in the order in which it does it.\<close>

datatype 'px event =
    Makedirs string
  | Print string
  | Imwrite string 'px

text \<open>
  The state of a run: the paths for which \<open>os.path.exists\<close> holds, and the events so
  far.
\<close>

record 'px run_state =
  existing :: "string list"
  events :: "'px event list"

definition emit :: "'px run_state \<Rightarrow> 'px event \<Rightarrow> 'px run_state" where
  "emit st ev = st\<lparr>events := events st @ [ev]\<rparr>"

text \<open>
  \<open>os.path.join(a, b)\<close> of \<open>posixpath\<close>: an absolute \<open>b\<close> replaces \<open>a\<close>; otherwise
  \<open>b\<close> is appended, after a separator unless \<open>a\<close> is empty or ends with one.
\<close>

definition path_join :: "string \<Rightarrow> string \<Rightarrow> string" where
  "path_join a b =
     (if take 1 b = ''/'' then b
      else if a = [] \<or> last a = CHR ''/'' then a @ b
      else a @ ''/'' @ b)"

text \<open>The decimal numeral of a number, as an f-string formats \<open>{i}\<close>.\<close>

definition digit_char :: "nat \<Rightarrow> char" where
  "digit_char d = ''0123456789'' ! (d mod 10)"

fun str_nat :: "nat \<Rightarrow> string" where
  "str_nat n =
     (if n < 10 then [digit_char n] else str_nat (n div 10) @ [digit_char (n mod 10)])"

declare str_nat.simps [simp del]

definition cancer_image_path :: string where
  "cancer_image_path = ''images/cancer''"

definition nonmalignant_image_path :: string where
  "nonmalignant_image_path = ''images/nonmalignant''"

section \<open>\<open>create_image_datasets\<close>\<close>

definition path_exists :: "'px run_state \<Rightarrow> string \<Rightarrow> bool" where
  "path_exists st p = (p \<in> set (existing st))"

text \<open>
  \<open>os.makedirs(p)\<close>: raises on a path that exists, or when the system refuses;
  otherwise the path exists afterwards (and so do its parents, which the function
  never asks about).
\<close>

definition makedirs :: "'px os_env \<Rightarrow> string \<Rightarrow> 'px run_state \<Rightarrow> py_exception + 'px run_state" where
  "makedirs env p st =
     (if path_exists st p then Inl FileExistsError
      else case makedirs_refused env p of
             Some e \<Rightarrow> Inl e
           | None \<Rightarrow> Inr (emit (st\<lparr>existing := p # existing st\<rparr>) (Makedirs p)))"

text \<open>\<open>if not os.path.exists(p): os.makedirs(p)\<close>\<close>

definition ensure_dir :: "'px os_env \<Rightarrow> string \<Rightarrow> 'px run_state \<Rightarrow> py_exception + 'px run_state" where
  "ensure_dir env p st = (if \<not> path_exists st p then makedirs env p st else Inr st)"

text \<open>\<open>os.listdir(original_image_path)[0]\<close>\<close>

definition first_entry :: "'px os_env \<Rightarrow> string \<Rightarrow> py_exception + string" where
  "first_entry env p =
     (case listdir env p of
        Inl e \<Rightarrow> Inl e
      | Inr [] \<Rightarrow> Inl IndexError
      | Inr (name # _) \<Rightarrow> Inr name)"

text \<open>\<open>f"image_{i}_{slice_number}.jpg"\<close>, and the path it is joined to.\<close>

definition image_name :: "nat \<Rightarrow> nat \<Rightarrow> string" where
  "image_name i slice_number =
     ''image_'' @ str_nat i @ ''_'' @ str_nat slice_number @ ''.jpg''"

definition slice_image_path :: "string \<Rightarrow> nat \<Rightarrow> nat \<Rightarrow> string" where
  "slice_image_path new_image_location i slice_number =
     path_join new_image_location (image_name i slice_number)"

text \<open>
  The inner loop, \<open>for slice_number in range(pixel_array.shape[0])\<close>, over the slice
  numbers that are left.
\<close>

fun slice_loop ::
  "'px os_env \<Rightarrow> string \<Rightarrow> nat \<Rightarrow> 'px list \<Rightarrow> nat list \<Rightarrow> 'px run_state \<Rightarrow> 'px run_state" where
  "slice_loop env new_image_location i pixel_array [] st = st"
| "slice_loop env new_image_location i pixel_array (slice_number # rest) st =
     (if slice_number \<notin> set [130, 134] then
        slice_loop env new_image_location i pixel_array rest st
      else
        let p = slice_image_path new_image_location i slice_number;
            st1 = emit st (Imwrite p (pixel_array ! slice_number));
            st2 = (if imwrite env p (pixel_array ! slice_number)
                   then emit st1 (Print (new_image_location @ '' created successfully'' @ [CHR 0x0A]))
                   else emit st1 (Print (''Failed to create '' @ new_image_location @ ''...'' @ [CHR 0x0A])))
        in slice_loop env new_image_location i pixel_array rest st2)"

text \<open>
  \<open>os.path.join(path_to_manifest_folder, cancer_df.iloc[i]["File Location"][2:])\<close>
\<close>

definition original_image_path :: "string \<Rightarrow> cancer_row \<Rightarrow> string" where
  "original_image_path path_to_manifest_folder row =
     (let location_of_image = drop 2 (File_Location row)
      in path_join path_to_manifest_folder location_of_image)"

text \<open>
  The directory that the slices of a row go to. \<open>current_location\<close> is
  \<open>os.path.join(os.getcwd())\<close>, the working directory itself.
\<close>

definition new_image_location :: "'px os_env \<Rightarrow> cancer_row \<Rightarrow> string" where
  "new_image_location env row =
     (let current_location = getcwd env
      in if cancer row then path_join current_location cancer_image_path
         else path_join current_location nonmalignant_image_path)"

text \<open>
  The body of the outer loop for row \<open>i\<close>. The result is \<open>Inl\<close> the exception that
  leaves the body, or \<open>Inr\<close> the state with which the loop goes on. Every
  exception of the listing is caught (\<open>except Exception\<close>); none of the reading is.
  The events before an exception are not kept: nothing below speaks of them.
\<close>

definition process_row ::
  "'px os_env \<Rightarrow> string \<Rightarrow> nat \<Rightarrow> cancer_row \<Rightarrow> 'px run_state \<Rightarrow> py_exception + 'px run_state" where
  "process_row env path_to_manifest_folder i row st =
     (case first_entry env (original_image_path path_to_manifest_folder row) of
        Inl e \<Rightarrow>
          Inr (emit st (Print (''Unable to work with file: ''
                                @ original_image_path path_to_manifest_folder row
                                @ ''; moving on...'')))
      | Inr name_of_dcm_file \<Rightarrow>
          (case dcmread_pixel_array env
                  (path_join (original_image_path path_to_manifest_folder row) name_of_dcm_file) of
             Inl e \<Rightarrow> Inl e
           | Inr pixel_array \<Rightarrow>
               Inr (slice_loop env (new_image_location env row) i pixel_array
                      [0..<length pixel_array] st)))"

text \<open>The outer loop, \<open>for i in range(cancer_df.shape[0])\<close>, from row \<open>i\<close> on.\<close>

fun rows_loop ::
  "'px os_env \<Rightarrow> string \<Rightarrow> nat \<Rightarrow> cancer_row list \<Rightarrow> 'px run_state \<Rightarrow> py_exception + 'px run_state" where
  "rows_loop env path_to_manifest_folder i [] st = Inr st"
| "rows_loop env path_to_manifest_folder i (row # rest) st =
     (case process_row env path_to_manifest_folder i row st of
        Inl e \<Rightarrow> Inl e
      | Inr st' \<Rightarrow> rows_loop env path_to_manifest_folder (Suc i) rest st')"

definition create_image_datasets ::
  "'px os_env \<Rightarrow> cancer_row list \<Rightarrow> string \<Rightarrow> 'px run_state \<Rightarrow> py_exception + 'px run_state" where
  "create_image_datasets env cancer_df path_to_manifest_folder st =
     (case ensure_dir env cancer_image_path st of
        Inl e \<Rightarrow> Inl e
      | Inr st1 \<Rightarrow>
          (case ensure_dir env nonmalignant_image_path st1 of
             Inl e \<Rightarrow> Inl e
           | Inr st2 \<Rightarrow> rows_loop env path_to_manifest_folder 0 cancer_df st2))"

section \<open>Reading the events of a run\<close>

text \<open>The image writes attempted, and the directories made, among a list of events.\<close>

fun writes_of :: "'px event list \<Rightarrow> (string \<times> 'px) list" where
  "writes_of [] = []"
| "writes_of (Imwrite p d # evs) = (p, d) # writes_of evs"
| "writes_of (_ # evs) = writes_of evs"

fun makedirs_of :: "'px event list \<Rightarrow> string list" where
  "makedirs_of [] = []"
| "makedirs_of (Makedirs p # evs) = p # makedirs_of evs"
| "makedirs_of (_ # evs) = makedirs_of evs"

text \<open>The events that a step from \<open>st\<close> to \<open>st'\<close> has added.\<close>

definition new_events :: "'px run_state \<Rightarrow> 'px run_state \<Rightarrow> 'px event list" where
  "new_events st st' = drop (length (events st)) (events st')"

text \<open>
  \<open>in_directory d p\<close>: the path \<open>p\<close> names an entry of the directory \<open>d\<close> itself (not of
  a directory below it), for a \<open>d\<close> that does not end with a separator.
\<close>

definition in_directory :: "string \<Rightarrow> string \<Rightarrow> bool" where
  "in_directory d p =
     (length d + 1 < length p \<and> take (length d + 1) p = d @ ''/'' \<and>
      CHR ''/'' \<notin> set (drop (length d + 1) p))"

text \<open>
  What the two label directories share: the working directory, a separator unless it
  ends with one, and \<open>images/\<close>.
\<close>

definition images_prefix :: "string \<Rightarrow> string" where
  "images_prefix cwd =
     (if cwd = [] \<or> last cwd = CHR ''/'' then cwd else cwd @ ''/'') @ ''images/''"

section \<open>A small instance\<close>

text \<open>
  Two tables and a world on which the statements below are instantiated: series \<open>S1\<close>
  occurs twice in the metadata and twice in the spreadsheet, \<open>S2\<close> is not an
  ultrasound series, \<open>S3\<close> has no score and \<open>S4\<close> has no metadata. A slice of a pixel
  array is represented by its number.
\<close>

definition example_metadata_csv :: "metadata_csv_row list" where
  "example_metadata_csv =
     [\<lparr>Subject_ID = ''P1'', Modality = ''US'', SOP_Class_Name = ''US Multi-frame'',
       File_Location = ''./studyA'', Series_UID = ''S1'',
       metadata_other_columns = [(''Number of Images'', ''1'')]\<rparr>,
      \<lparr>Subject_ID = ''P2'', Modality = ''MR'', SOP_Class_Name = ''MR Image'',
       File_Location = ''./studyM'', Series_UID = ''S2'',
       metadata_other_columns = [(''Number of Images'', ''60'')]\<rparr>,
      \<lparr>Subject_ID = ''P1'', Modality = ''US'', SOP_Class_Name = ''US Multi-frame'',
       File_Location = ''./studyB'', Series_UID = ''S1'',
       metadata_other_columns = []\<rparr>,
      \<lparr>Subject_ID = ''P3'', Modality = ''US'', SOP_Class_Name = ''US Multi-frame'',
       File_Location = ''./studyC'', Series_UID = ''S3'',
       metadata_other_columns = []\<rparr>]"

definition example_target_xlsx :: "target_xlsx_row list" where
  "example_target_xlsx =
     [\<lparr>UCLA_Score_col = Some 4, Patient_ID_col = ''P1'', seriesInstanceUID_US = ''S1'',
       target_other_columns = [(''Prostate Volume'', ''43'')]\<rparr>,
      \<lparr>UCLA_Score_col = Some 3, Patient_ID_col = ''P1'', seriesInstanceUID_US = ''S1'',
       target_other_columns = []\<rparr>,
      \<lparr>UCLA_Score_col = Some 2, Patient_ID_col = ''P2'', seriesInstanceUID_US = ''S2'',
       target_other_columns = []\<rparr>,
      \<lparr>UCLA_Score_col = None, Patient_ID_col = ''P4'', seriesInstanceUID_US = ''S4'',
       target_other_columns = []\<rparr>]"


definition example_row :: "string \<Rightarrow> bool \<Rightarrow> cancer_row" where
  "example_row location label =
     \<lparr>Subject_ID = ''P1'', Modality = ''US'', SOP_Class_Name = ''US Multi-frame'',
      File_Location = location, Series_UID = ''S1'',
      UCLA_Score = Some (if label then 4 else 2), Patient_ID = ''P1'', cancer = label\<rparr>"

text \<open>
  Under \<open>/data\<close>: \<open>studyA\<close> holds a file of 135 slices, \<open>studyB\<close> one of 100 slices,
  \<open>studyC\<close> one of 132 slices, \<open>studyD\<close> a file that is not DICOM; \<open>studyE\<close> is empty;
  nothing else exists. No write succeeds under \<open>images/nonmalignant\<close>.
\<close>

definition example_env :: "nat os_env" where
  "example_env =
     \<lparr>getcwd = ''/home/u'',
      listdir = (\<lambda>p. if p \<in> set [''/data/studyA'', ''/data/studyB'', ''/data/studyC'',
                                 ''/data/studyD'']
                      then Inr [''1-1.dcm'']
                      else if p = ''/data/studyE'' then Inr []
                      else Inl FileNotFoundError),
      dcmread_pixel_array =
        (\<lambda>p. if p = ''/data/studyA/1-1.dcm'' then Inr [0..<135]
              else if p = ''/data/studyB/1-1.dcm'' then Inr [0..<100]
              else if p = ''/data/studyC/1-1.dcm'' then Inr [0..<132]
              else Inl InvalidDicomError),
      imwrite = (\<lambda>p d. take 21 p = ''/home/u/images/cancer''),
      makedirs_refused = (\<lambda>p. None)\<rparr>"

definition example_state :: "nat run_state" where
  "example_state = \<lparr>existing = [], events = []\<rparr>"

section \<open>Properties of \<open>get_cancer_df\<close>\<close>

lemmas table_defs =
  get_cancer_df_def pd_merge_def metadata_df_def target_data_df_def rename_and_label_def
  merge_rows_def score_ge_def metadata_row.truncate_def target_row.truncate_def
  compared_threshold_def float64_column_def is_integral_def float64_of_int_def Let_def
  example_metadata_csv_def example_target_xlsx_def

lemma Modality_truncate: "Modality (metadata_row.truncate r) = Modality r"
  by (simp add: metadata_row.truncate_def)

lemma Series_UID_truncate: "Series_UID (metadata_row.truncate r) = Series_UID r"
  by (simp add: metadata_row.truncate_def)

lemma Series_UID_merge_rows: "Series_UID (merge_rows m t) = Series_UID m"
  by (simp add: merge_rows_def)



lemma set_pd_merge:
  "set (pd_merge left right) =
     {merge_rows m t | m t. m \<in> set left \<and> t \<in> set right \<and> target_Series_UID t = Series_UID m}"
  by (auto simp: pd_merge_def)

lemma score_column_truncate:
  "map UCLA_Score_col (map target_row.truncate xlsx) = map UCLA_Score_col xlsx"
  by (simp add: target_row.truncate_def)

lemma target_data_df_map:
  "target_data_df t xlsx =
     map (rename_and_label (compared_threshold (map UCLA_Score_col xlsx) t))
         (map target_row.truncate xlsx)"
  by (simp only: target_data_df_def Let_def score_column_truncate)






text \<open>
  C4: after the projection and the filter, every metadata row has Modality \<open>US\<close>, and
  the rows that are left are exactly the input rows with Modality \<open>US\<close>, projected, each
  as often and in the order in which it was read: the step keeps and drops no other
  row.
\<close>

theorem metadata_df_keeps_exactly_US:
  "(\<forall>r \<in> set (metadata_df csv). Modality r = ''US'') \<and>
   metadata_df csv = map metadata_row.truncate (filter (\<lambda>r. Modality r = ''US'') csv)"
  by (simp add: metadata_df_def filter_map comp_def Modality_truncate)

theorem metadata_df_keeps_exactly_US_witness:
  "map File_Location (metadata_df example_metadata_csv) = [''./studyA'', ''./studyB'', ''./studyC'']
   \<and> map Modality (metadata_df example_metadata_csv) = [''US'', ''US'', ''US'']"
  using metadata_df_keeps_exactly_US [of example_metadata_csv]
  by (simp add: table_defs)






lemma inner_join_keys:
  "(\<exists>r \<in> set (pd_merge left right). Series_UID r = u) \<longleftrightarrow>
     (\<exists>m \<in> set left. Series_UID m = u) \<and> (\<exists>s \<in> set right. target_Series_UID s = u)"
proof
  assume "\<exists>r \<in> set (pd_merge left right). Series_UID r = u"
  then obtain m s where "m \<in> set left" "s \<in> set right"
      "target_Series_UID s = Series_UID m" "Series_UID (merge_rows m s) = u"
    by (auto simp: set_pd_merge)
  then show "(\<exists>m \<in> set left. Series_UID m = u) \<and> (\<exists>s \<in> set right. target_Series_UID s = u)"
    by (auto simp: Series_UID_merge_rows)
next
  assume "(\<exists>m \<in> set left. Series_UID m = u) \<and> (\<exists>s \<in> set right. target_Series_UID s = u)"
  then obtain m s where ms: "m \<in> set left" "s \<in> set right" "Series_UID m = u"
      "target_Series_UID s = u"
    by blast
  then have "merge_rows m s \<in> set (pd_merge left right)"
    by (auto simp: set_pd_merge)
  with ms show "\<exists>r \<in> set (pd_merge left right). Series_UID r = u"
    by (auto simp: Series_UID_merge_rows intro!: bexI [of _ "merge_rows m s"])
qed

lemma uids_metadata_df:
  "(\<exists>m \<in> set (metadata_df csv). Series_UID m = u) \<longleftrightarrow>
     (\<exists>m \<in> set csv. Modality m = ''US'' \<and> Series_UID m = u)"
  by (auto simp: metadata_df_def Modality_truncate Series_UID_truncate)

lemma uids_target_data_df:
  "(\<exists>s \<in> set (target_data_df t xlsx). target_Series_UID s = u) \<longleftrightarrow>
     (\<exists>s \<in> set xlsx. seriesInstanceUID_US s = u)"
  by (auto simp: target_data_df_map rename_and_label_def target_row.truncate_def)

text \<open>
  C2: the merge is an inner join on the Series UID. For any two tables and any series
  identifier, the output has a row with that identifier if and only if both tables have
  one; a series that only one table has is absent. For \<open>get_cancer_df\<close> the two tables
  are the ultrasound rows of the metadata and the rows of the spreadsheet.
\<close>

theorem pd_merge_inner_join:
  "((\<exists>r \<in> set (pd_merge left right). Series_UID r = u) \<longleftrightarrow>
     (\<exists>m \<in> set left. Series_UID m = u) \<and> (\<exists>s \<in> set right. target_Series_UID s = u)) \<and>
   ((\<exists>r \<in> set (get_cancer_df t csv xlsx). Series_UID r = u) \<longleftrightarrow>
     (\<exists>m \<in> set csv. Modality m = ''US'' \<and> Series_UID m = u) \<and>
     (\<exists>s \<in> set xlsx. seriesInstanceUID_US s = u))"
  using inner_join_keys [of left right u]
    inner_join_keys [of "metadata_df csv" "target_data_df t xlsx" u]
  by (simp only: get_cancer_df_def uids_metadata_df uids_target_data_df)

theorem pd_merge_inner_join_witness:
  "map Series_UID (get_cancer_df 3 example_metadata_csv example_target_xlsx)
     = [''S1'', ''S1'', ''S1'', ''S1''] \<and>
   map Series_UID (metadata_df example_metadata_csv) = [''S1'', ''S1'', ''S3''] \<and>
   map target_Series_UID (target_data_df 3 example_target_xlsx) = [''S1'', ''S1'', ''S2'', ''S4'']"
  using pd_merge_inner_join [of "[]" "[]" "''S1''" 3 example_metadata_csv example_target_xlsx]
    pd_merge_inner_join [of "[]" "[]" "''S3''" 3 example_metadata_csv example_target_xlsx]
  by (simp add: table_defs)

lemma fan_out_count:
  "length (filter (\<lambda>r. Series_UID r = u) (pd_merge left right)) =
     length (filter (\<lambda>m. Series_UID m = u) left) *
     length (filter (\<lambda>t. target_Series_UID t = u) right)"
proof (induction left)
  case Nil
  show ?case by (simp add: pd_merge_def)
next
  case (Cons m left)
  have step: "pd_merge (m # left) right =
      map (merge_rows m) (filter (\<lambda>t. target_Series_UID t = Series_UID m) right)
      @ pd_merge left right"
    by (simp add: pd_merge_def)
  have one: "length (filter (\<lambda>r. Series_UID r = u)
               (map (merge_rows m) (filter (\<lambda>t. target_Series_UID t = Series_UID m) right)))
        = (if Series_UID m = u then length (filter (\<lambda>t. target_Series_UID t = u) right) else 0)"
    by (simp add: filter_map comp_def Series_UID_merge_rows)
  have "length (filter (\<lambda>r. Series_UID r = u) (pd_merge (m # left) right)) =
      length (filter (\<lambda>r. Series_UID r = u)
               (map (merge_rows m) (filter (\<lambda>t. target_Series_UID t = Series_UID m) right)))
      + length (filter (\<lambda>r. Series_UID r = u) (pd_merge left right))"
    by (simp only: step filter_append length_append)
  also have "\<dots> =
      (if Series_UID m = u then length (filter (\<lambda>t. target_Series_UID t = u) right) else 0)
      + length (filter (\<lambda>m. Series_UID m = u) left) *
        length (filter (\<lambda>t. target_Series_UID t = u) right)"
    by (simp only: one Cons.IH)
  also have "\<dots> = length (filter (\<lambda>m. Series_UID m = u) (m # left)) *
        length (filter (\<lambda>t. target_Series_UID t = u) right)"
    by simp
  finally show ?case .
qed

lemma count_metadata_df:
  "length (filter (\<lambda>m. Series_UID m = u) (metadata_df csv)) =
     length (filter (\<lambda>m. Modality m = ''US'' \<and> Series_UID m = u) csv)"
  by (induction csv) (simp_all add: metadata_df_def Modality_truncate Series_UID_truncate)

lemma count_labelled:
  "length (filter (\<lambda>s. target_Series_UID s = u)
             (map (rename_and_label th) (map target_row.truncate xlsx))) =
     length (filter (\<lambda>s. seriesInstanceUID_US s = u) xlsx)"
  by (induction xlsx) (simp_all add: rename_and_label_def target_row.truncate_def)

lemma count_target_data_df:
  "length (filter (\<lambda>s. target_Series_UID s = u) (target_data_df t xlsx)) =
     length (filter (\<lambda>s. seriesInstanceUID_US s = u) xlsx)"
  by (simp only: target_data_df_map count_labelled)

text \<open>
  C7: the merge does not deduplicate. A series identifier that occurs \<open>m\<close> times in the
  left table and \<open>k\<close> times in the right table is carried by exactly \<open>m * k\<close> rows of the
  output; for \<open>get_cancer_df\<close> these are the occurrences among the ultrasound rows of the
  metadata and among the rows of the spreadsheet.
\<close>

theorem pd_merge_fan_out:
  "length (filter (\<lambda>r. Series_UID r = u) (pd_merge left right)) =
     length (filter (\<lambda>m. Series_UID m = u) left) *
     length (filter (\<lambda>s. target_Series_UID s = u) right) \<and>
   length (filter (\<lambda>r. Series_UID r = u) (get_cancer_df t csv xlsx)) =
     length (filter (\<lambda>m. Modality m = ''US'' \<and> Series_UID m = u) csv) *
     length (filter (\<lambda>s. seriesInstanceUID_US s = u) xlsx)"
  by (simp only: get_cancer_df_def fan_out_count count_metadata_df count_target_data_df)

theorem pd_merge_fan_out_witness:
  "length (filter (\<lambda>r. Series_UID r = ''S1'')
       (get_cancer_df 3 example_metadata_csv example_target_xlsx)) = 2 * 2"
  using pd_merge_fan_out [of "''S1''" "[]" "[]" 3 example_metadata_csv example_target_xlsx]
  by (simp add: example_metadata_csv_def example_target_xlsx_def)

section \<open>Properties of \<open>create_image_datasets\<close>\<close>

lemma writes_of_append: "writes_of (xs @ ys) = writes_of xs @ writes_of ys"
  by (induction xs rule: writes_of.induct) simp_all

lemma makedirs_of_append: "makedirs_of (xs @ ys) = makedirs_of xs @ makedirs_of ys"
  by (induction xs rule: makedirs_of.induct) simp_all

lemma events_emit: "events (emit st ev) = events st @ [ev]"
  by (simp add: emit_def)

lemma existing_emit: "existing (emit st ev) = existing st"
  by (simp add: emit_def)

lemma new_events_append: "events st' = events st @ new \<Longrightarrow> new_events st st' = new"
  by (simp add: new_events_def)

lemma slice_loop_events:
  fixes st :: "'px run_state"
  shows "\<exists>new. events (slice_loop env loc i vol ks st) = events st @ new \<and>
         writes_of new = map (\<lambda>k. (slice_image_path loc i k, vol ! k))
                           (filter (\<lambda>k. k = 130 \<or> k = 134) ks) \<and>
         makedirs_of new = []"
proof (induction ks arbitrary: st)
  case Nil
  show ?case by simp
next
  case (Cons k ks)
  show ?case
  proof (cases "k = 130 \<or> k = 134")
    case False
    then show ?thesis using Cons.IH [of st] by simp
  next
    case True
    define p where "p = slice_image_path loc i k"
    define msg :: "'px event" where "msg = (if imwrite env p (vol ! k)
                   then Print (loc @ '' created successfully'' @ [CHR 0x0A])
                   else Print (''Failed to create '' @ loc @ ''...'' @ [CHR 0x0A]))"
    define st2 where "st2 = emit (emit st (Imwrite p (vol ! k))) msg"
    have step: "slice_loop env loc i vol (k # ks) st = slice_loop env loc i vol ks st2"
      using True by (auto simp: st2_def msg_def p_def Let_def)
    have ev2: "events st2 = events st @ [Imwrite p (vol ! k), msg]"
      by (simp add: st2_def events_emit)
    obtain new where new: "events (slice_loop env loc i vol ks st2) = events st2 @ new"
        "writes_of new = map (\<lambda>k. (slice_image_path loc i k, vol ! k))
                           (filter (\<lambda>k. k = 130 \<or> k = 134) ks)"
        "makedirs_of new = []"
      using Cons.IH [of st2] by blast
    have msg_print: "\<exists>s. msg = Print s" by (simp add: msg_def)
    then obtain s where s: "msg = Print s" ..
    let ?new = "[Imwrite p (vol ! k), msg] @ new"
    have "events (slice_loop env loc i vol (k # ks) st) = events st @ ?new"
      unfolding step new(1) ev2 by simp
    moreover have "writes_of ?new = map (\<lambda>k. (slice_image_path loc i k, vol ! k))
                           (filter (\<lambda>k. k = 130 \<or> k = 134) (k # ks))"
      using True by (simp add: s new(2) p_def)
    moreover have "makedirs_of ?new = []"
      by (simp add: s new(3))
    ultimately show ?thesis by blast
  qed
qed

lemma slice_loop_existing: "existing (slice_loop env loc i vol ks st) = existing st"
  by (induction ks arbitrary: st) (simp_all add: Let_def existing_emit)

lemma filter_fixed_slices:
  "filter (\<lambda>k. k = 130 \<or> k = 134) [0..<n] = filter (\<lambda>k. k < n) [130, 134]"
proof (induction n)
  case 0
  show ?case by simp
next
  case (Suc n)
  have left: "filter (\<lambda>k. k = 130 \<or> k = 134) [0..<Suc n] =
      filter (\<lambda>k. k < n) [130, 134] @ (if n = 130 \<or> n = 134 then [n] else [])"
    using Suc.IH by simp
  have right: "filter (\<lambda>k. k < Suc n) [130, 134] =
      filter (\<lambda>k. k < n) [130, 134] @ (if n = 130 \<or> n = 134 then [n] else [])"
  proof -
    consider "n = 130" | "n = 134" | "n \<noteq> 130" "n \<noteq> 134" by blast
    then show ?thesis
    proof cases
      case 1
      then show ?thesis by simp
    next
      case 2
      then show ?thesis by simp
    next
      case 3
      then have "(130 < Suc n) = (130 < n)" "(134 < Suc n) = (134 < n)" by linarith+
      with 3 show ?thesis by simp
    qed
  qed
  show ?case by (simp only: left right)
qed


lemma process_row_skip:
  "first_entry env (original_image_path folder row) = Inl e \<Longrightarrow>
     process_row env folder i row st =
       Inr (emit st (Print (''Unable to work with file: '' @ original_image_path folder row
                            @ ''; moving on...'')))"
  by (simp add: process_row_def)

lemma process_row_raise:
  "first_entry env (original_image_path folder row) = Inr name \<Longrightarrow>
   dcmread_pixel_array env (path_join (original_image_path folder row) name) = Inl e \<Longrightarrow>
     process_row env folder i row st = Inl e"
  by (simp add: process_row_def)

lemma process_row_ok:
  "first_entry env (original_image_path folder row) = Inr name \<Longrightarrow>
   dcmread_pixel_array env (path_join (original_image_path folder row) name) = Inr pixel_array \<Longrightarrow>
     process_row env folder i row st =
       Inr (slice_loop env (new_image_location env row) i pixel_array [0..<length pixel_array] st)"
  by (simp add: process_row_def)

lemma process_row_Inl_iff:
  "process_row env folder i row st = Inl e \<longleftrightarrow>
     (\<exists>name. first_entry env (original_image_path folder row) = Inr name \<and>
        dcmread_pixel_array env (path_join (original_image_path folder row) name) = Inl e)"
  by (auto simp: process_row_def split: sum.splits)

lemma process_row_writes:
  assumes "first_entry env (original_image_path folder row) = Inr name"
    and "dcmread_pixel_array env (path_join (original_image_path folder row) name) = Inr pixel_array"
  shows "\<exists>st'. process_row env folder i row st = Inr st' \<and>
           writes_of (new_events st st') =
             map (\<lambda>k. (slice_image_path (new_image_location env row) i k, pixel_array ! k))
                 (filter (\<lambda>k. k < length pixel_array) [130, 134])"
proof -
  let ?st' = "slice_loop env (new_image_location env row) i pixel_array [0..<length pixel_array] st"
  obtain new where new: "events ?st' = events st @ new"
      "writes_of new = map (\<lambda>k. (slice_image_path (new_image_location env row) i k, pixel_array ! k))
                         (filter (\<lambda>k. k = 130 \<or> k = 134) [0..<length pixel_array])"
    using slice_loop_events [of env "new_image_location env row" i pixel_array
        "[0..<length pixel_array]" st] by blast
  have "new_events st ?st' = new"
    using new(1) by (rule new_events_append)
  then have "writes_of (new_events st ?st') =
      map (\<lambda>k. (slice_image_path (new_image_location env row) i k, pixel_array ! k))
          (filter (\<lambda>k. k < length pixel_array) [130, 134])"
    by (simp only: new(2) filter_fixed_slices)
  then show ?thesis
    using process_row_ok [OF assms] by blast
qed

lemma process_row_dirs:
  assumes "process_row env folder i row st = Inr st'"
  shows "existing st' = existing st \<and> (\<exists>new. events st' = events st @ new \<and> makedirs_of new = [])"
proof (cases "first_entry env (original_image_path folder row)")
  case (Inl e)
  have "st' = emit st (Print (''Unable to work with file: '' @ original_image_path folder row
                            @ ''; moving on...''))"
    using assms process_row_skip [OF Inl, of i st] by simp
  then show ?thesis
    by (simp add: existing_emit events_emit)
next
  case (Inr name)
  show ?thesis
  proof (cases "dcmread_pixel_array env (path_join (original_image_path folder row) name)")
    case (Inl e)
    then show ?thesis
      using assms process_row_raise [OF Inr Inl, of i st] by simp
  next
    case vol: (Inr pixel_array)
    have st': "st' = slice_loop env (new_image_location env row) i pixel_array
                 [0..<length pixel_array] st"
      using assms process_row_ok [OF Inr vol, of i st] by simp
    show ?thesis
      unfolding st'
      using slice_loop_events [of env "new_image_location env row" i pixel_array
          "[0..<length pixel_array]" st]
      by (auto simp: slice_loop_existing)
  qed
qed

lemma rows_loop_dirs:
  "rows_loop env folder i rows st = Inr st' \<Longrightarrow>
     existing st' = existing st \<and> (\<exists>new. events st' = events st @ new \<and> makedirs_of new = [])"
proof (induction rows arbitrary: i st)
  case Nil
  then show ?case by simp
next
  case (Cons row rows)
  from Cons.prems obtain st1 where
      st1: "process_row env folder i row st = Inr st1" and
      rest: "rows_loop env folder (Suc i) rows st1 = Inr st'"
    by (auto split: sum.splits)
  from process_row_dirs [OF st1] obtain new1 where
      one: "existing st1 = existing st" "events st1 = events st @ new1" "makedirs_of new1 = []"
    by blast
  from Cons.IH [OF rest] obtain new2 where
      two: "existing st' = existing st1" "events st' = events st1 @ new2" "makedirs_of new2 = []"
    by blast
  have "events st' = events st @ (new1 @ new2)"
    by (simp add: one(2) two(2))
  moreover have "makedirs_of (new1 @ new2) = []"
    by (simp add: makedirs_of_append one(3) two(3))
  ultimately show ?case
    using one(1) two(1) by auto
qed

lemma rows_loop_append:
  "rows_loop env folder i (xs @ ys) st =
     (case rows_loop env folder i xs st of
        Inl e \<Rightarrow> Inl e
      | Inr st' \<Rightarrow> rows_loop env folder (i + length xs) ys st')"
  by (induction xs arbitrary: i st) (auto split: sum.splits)

lemma ensure_dir_exists: "path_exists st p \<Longrightarrow> ensure_dir env p st = Inr st"
  by (simp add: ensure_dir_def)

lemma ensure_dir_result:
  "ensure_dir env p st = Inr st' \<Longrightarrow>
     existing st' = (if path_exists st p then existing st else p # existing st) \<and>
     events st' = events st @ (if path_exists st p then [] else [Makedirs p])"
  by (auto simp: ensure_dir_def makedirs_def emit_def split: if_splits option.splits)

lemmas world_defs =
  example_env_def example_row_def example_state_def original_image_path_def path_join_def
  first_entry_def new_image_location_def cancer_image_path_def nonmalignant_image_path_def

lemma example_first_entry:
  "first_entry example_env (original_image_path ''/data'' (example_row ''./studyA'' c)) = Inr ''1-1.dcm''"
  "first_entry example_env (original_image_path ''/data'' (example_row ''./studyB'' c)) = Inr ''1-1.dcm''"
  "first_entry example_env (original_image_path ''/data'' (example_row ''./studyC'' c)) = Inr ''1-1.dcm''"
  "first_entry example_env (original_image_path ''/data'' (example_row ''./studyD'' c)) = Inr ''1-1.dcm''"
  by (simp_all add: world_defs)

lemma example_dcmread:
  "dcmread_pixel_array example_env
     (path_join (original_image_path ''/data'' (example_row ''./studyA'' c)) ''1-1.dcm'') = Inr [0..<135]"
  "dcmread_pixel_array example_env
     (path_join (original_image_path ''/data'' (example_row ''./studyB'' c)) ''1-1.dcm'') = Inr [0..<100]"
  "dcmread_pixel_array example_env
     (path_join (original_image_path ''/data'' (example_row ''./studyC'' c)) ''1-1.dcm'') = Inr [0..<132]"
  "dcmread_pixel_array example_env
     (path_join (original_image_path ''/data'' (example_row ''./studyD'' c)) ''1-1.dcm'') = Inl InvalidDicomError"
  by (simp_all add: world_defs)


lemma example_location:
  "new_image_location example_env (example_row l True) = ''/home/u/images/cancer''"
  "new_image_location example_env (example_row l False) = ''/home/u/images/nonmalignant''"
  by (simp_all add: world_defs)

lemma example_slice_image_path:
  "slice_image_path ''/home/u/images/cancer'' 7 130 = ''/home/u/images/cancer/image_7_130.jpg''"
  "slice_image_path ''/home/u/images/cancer'' 7 134 = ''/home/u/images/cancer/image_7_134.jpg''"
  "slice_image_path ''/home/u/images/nonmalignant'' 2 130 = ''/home/u/images/nonmalignant/image_2_130.jpg''"
  by (simp_all add: slice_image_path_def image_name_def path_join_def str_nat.simps digit_char_def)

text \<open>
  C10: for a row whose directory has a first entry that is read as a pixel array of
  \<open>n\<close> slices, the body of the loop returns, and the image writes it attempts are
  those of the slices \<open>ks\<close>, in order, each to the path of its slice number, where
  \<open>ks\<close> has no repetition and its elements are exactly \<open>{130, 134} \<inter> {0, ..., n - 1}\<close>.
  For \<open>131 \<le> n \<le> 134\<close> that is one write, of slice 130.
\<close>

theorem slices_written_general:
  assumes "first_entry env (original_image_path folder row) = Inr name"
    and "dcmread_pixel_array env (path_join (original_image_path folder row) name) = Inr pixel_array"
  shows "\<exists>st' ks. process_row env folder i row st = Inr st' \<and>
           writes_of (new_events st st') =
             map (\<lambda>k. (slice_image_path (new_image_location env row) i k, pixel_array ! k)) ks \<and>
           distinct ks \<and>
           set ks = {130, 134} \<inter> {0..<length pixel_array} \<and>
           (131 \<le> length pixel_array \<and> length pixel_array \<le> 134 \<longrightarrow> ks = [130])"
proof -
  let ?ks = "filter (\<lambda>k. k < length pixel_array) [130, 134]"
  obtain st' where st': "process_row env folder i row st = Inr st'"
      "writes_of (new_events st st') =
         map (\<lambda>k. (slice_image_path (new_image_location env row) i k, pixel_array ! k)) ?ks"
    using process_row_writes [OF assms] by blast
  have "distinct ?ks" by simp
  moreover have "set ?ks = {130, 134} \<inter> {0..<length pixel_array}" by auto
  moreover have "131 \<le> length pixel_array \<and> length pixel_array \<le> 134 \<longrightarrow> ?ks = [130]" by simp
  ultimately show ?thesis using st' by blast
qed

theorem slices_written_general_witness:
  "\<exists>st'. process_row example_env ''/data'' 2 (example_row ''./studyC'' False) example_state = Inr st' \<and>
      writes_of (new_events example_state st') =
        [(''/home/u/images/nonmalignant/image_2_130.jpg'', 130)]"
  using slices_written_general [of example_env "''/data''" "example_row ''./studyC'' False" "''1-1.dcm''" "[0..<132]" 2
      example_state, OF example_first_entry(3) example_dcmread(3)]
  by (auto simp: example_location example_slice_image_path)

text \<open>
  C3: for a row whose directory has a first entry that is read as a pixel array, the
  body of the loop returns; with exactly 135 slices it attempts exactly two image
  writes, of slice 130 and then of slice 134, and with 100 slices it attempts none.
\<close>

theorem slices_written_135_and_100:
  assumes "first_entry env (original_image_path folder row) = Inr name"
    and "dcmread_pixel_array env (path_join (original_image_path folder row) name) = Inr pixel_array"
  shows "\<exists>st'. process_row env folder i row st = Inr st' \<and>
           (length pixel_array = 135 \<longrightarrow>
              writes_of (new_events st st') =
                [(slice_image_path (new_image_location env row) i 130, pixel_array ! 130),
                 (slice_image_path (new_image_location env row) i 134, pixel_array ! 134)]) \<and>
           (length pixel_array = 100 \<longrightarrow> writes_of (new_events st st') = [])"
proof -
  obtain st' where st': "process_row env folder i row st = Inr st'"
      "writes_of (new_events st st') =
         map (\<lambda>k. (slice_image_path (new_image_location env row) i k, pixel_array ! k))
             (filter (\<lambda>k. k < length pixel_array) [130, 134])"
    using process_row_writes [OF assms] by blast
  show ?thesis
    using st' by auto
qed

theorem slices_written_135_and_100_witness:
  "(\<exists>st'. process_row example_env ''/data'' 7 (example_row ''./studyA'' True) example_state = Inr st' \<and>
      writes_of (new_events example_state st') =
        [(''/home/u/images/cancer/image_7_130.jpg'', 130),
         (''/home/u/images/cancer/image_7_134.jpg'', 134)]) \<and>
   (\<exists>st'. process_row example_env ''/data'' 8 (example_row ''./studyB'' True) example_state = Inr st' \<and>
      writes_of (new_events example_state st') = [])"
  using slices_written_135_and_100 [of example_env "''/data''" "example_row ''./studyA'' True" "''1-1.dcm''" "[0..<135]" 7
      example_state, OF example_first_entry(1) example_dcmread(1)]
    slices_written_135_and_100 [of example_env "''/data''" "example_row ''./studyB'' True" "''1-1.dcm''" "[0..<100]" 8
      example_state, OF example_first_entry(2) example_dcmread(2)]
  by (simp add: example_location example_slice_image_path)



text \<open>
  C9: the body of the loop raises exactly when the directory has a first entry and
  reading that file raises, and it raises that exception: neither a failed listing nor
  the result of a write makes it raise. The exception leaves the loop, so the rows
  that follow are not processed: a run that reaches the row ends with that exception,
  and every run over a frame that contains the row ends with an exception.
\<close>

theorem read_failure_propagates:
  "(process_row env folder i row st = Inl e \<longleftrightarrow>
      (\<exists>name. first_entry env (original_image_path folder row) = Inr name \<and>
         dcmread_pixel_array env (path_join (original_image_path folder row) name) = Inl e)) \<and>
   (process_row env folder i row st = Inl e \<longrightarrow>
      rows_loop env folder i (row # rest) st = Inl e \<and>
      (\<forall>before j st1 st2.
          rows_loop env folder j before st1 = Inr st2 \<longrightarrow>
          rows_loop env folder j (before @ row # rest) st1 = Inl e) \<and>
      (\<forall>before st0. \<exists>e'. create_image_datasets env (before @ row # rest) folder st0 = Inl e'))"
proof -
  have iff: "process_row env folder i row st = Inl e \<longleftrightarrow>
      (\<exists>name. first_entry env (original_image_path folder row) = Inr name \<and>
         dcmread_pixel_array env (path_join (original_image_path folder row) name) = Inl e)"
    by (rule process_row_Inl_iff)
  have abort: "rows_loop env folder i (row # rest) st = Inl e \<and>
      (\<forall>before j st1 st2.
          rows_loop env folder j before st1 = Inr st2 \<longrightarrow>
          rows_loop env folder j (before @ row # rest) st1 = Inl e) \<and>
      (\<forall>before st0. \<exists>e'. create_image_datasets env (before @ row # rest) folder st0 = Inl e')"
    if raised: "process_row env folder i row st = Inl e"
  proof (intro conjI)
    show "rows_loop env folder i (row # rest) st = Inl e"
      by (simp add: raised)
    have anywhere: "process_row env folder j row st1 = Inl e" for j st1
      using raised by (simp only: process_row_Inl_iff)
    show "\<forall>before j st1 st2.
          rows_loop env folder j before st1 = Inr st2 \<longrightarrow>
          rows_loop env folder j (before @ row # rest) st1 = Inl e"
      by (simp add: rows_loop_append anywhere)
    have loop: "\<exists>e'. rows_loop env folder j (before @ row # rest) st1 = Inl e'" for j before st1
      by (cases "rows_loop env folder j before st1")
         (simp_all add: rows_loop_append anywhere)
    show "\<forall>before st0. \<exists>e'. create_image_datasets env (before @ row # rest) folder st0 = Inl e'"
      using loop by (auto simp: create_image_datasets_def split: sum.splits)
  qed
  show ?thesis using iff abort by blast
qed

theorem read_failure_propagates_witness:
  "process_row example_env ''/data'' 0 (example_row ''./studyD'' True) example_state
     = Inl InvalidDicomError \<and>
   rows_loop example_env ''/data'' 0
       [example_row ''./studyD'' True, example_row ''./studyA'' True] example_state
     = Inl InvalidDicomError \<and>
   (\<exists>e'. create_image_datasets example_env
       [example_row ''./studyE'' False, example_row ''./studyD'' True, example_row ''./studyA'' True]
       ''/data'' example_state = Inl e')"
proof -
  have raised: "process_row example_env ''/data'' 0 (example_row ''./studyD'' True) example_state
     = Inl InvalidDicomError"
    using example_first_entry(4) example_dcmread(4) by (rule process_row_raise)
  from read_failure_propagates [of example_env "''/data''" 0 "example_row ''./studyD'' True" example_state
      InvalidDicomError "[example_row ''./studyA'' True]"] raised
  have loop: "rows_loop example_env ''/data'' 0
       [example_row ''./studyD'' True, example_row ''./studyA'' True] example_state
     = Inl InvalidDicomError"
    and run: "\<forall>before st0. \<exists>e'. create_image_datasets example_env
       (before @ example_row ''./studyD'' True # [example_row ''./studyA'' True]) ''/data'' st0 = Inl e'"
    by blast+
  from run have "\<exists>e'. create_image_datasets example_env
       ([example_row ''./studyE'' False] @ example_row ''./studyD'' True # [example_row ''./studyA'' True])
       ''/data'' example_state = Inl e'"
    by blast
  then show ?thesis using raised loop by simp
qed

lemma digit_char_no_sep: "digit_char d \<noteq> CHR ''/''"
proof -
  have "d mod 10 < length ''0123456789''" by simp
  then have "''0123456789'' ! (d mod 10) \<in> set ''0123456789''"
    by (rule nth_mem)
  then show ?thesis
    unfolding digit_char_def by auto
qed

lemma str_nat_no_sep: "CHR ''/'' \<notin> set (str_nat n)"
proof (induction n rule: str_nat.induct)
  case (1 n)
  show ?case
  proof (cases "n < 10")
    case True
    then show ?thesis
      using digit_char_no_sep [of n] by (subst str_nat.simps) auto
  next
    case False
    then show ?thesis
      using "1" digit_char_no_sep [of "n mod 10"] by (subst str_nat.simps) auto
  qed
qed

lemma image_name_plain: "image_name i k \<noteq> [] \<and> CHR ''/'' \<notin> set (image_name i k)"
  by (simp add: image_name_def str_nat_no_sep)

lemma path_join_relative:
  "take 1 b \<noteq> ''/'' \<Longrightarrow> a \<noteq> [] \<Longrightarrow> last a \<noteq> CHR ''/'' \<Longrightarrow> path_join a b = a @ ''/'' @ b"
  by (simp add: path_join_def)

lemma slice_image_path_plain:
  "loc \<noteq> [] \<Longrightarrow> last loc \<noteq> CHR ''/'' \<Longrightarrow>
     slice_image_path loc i k = loc @ ''/'' @ image_name i k"
  by (simp add: slice_image_path_def image_name_def path_join_def)

lemma path_join_cancer: "path_join cwd ''images/cancer'' = images_prefix cwd @ ''cancer''"
  by (simp add: path_join_def images_prefix_def)

lemma path_join_nonmalignant:
  "path_join cwd ''images/nonmalignant'' = images_prefix cwd @ ''nonmalignant''"
  by (simp add: path_join_def images_prefix_def)

lemma in_directory_own:
  "name \<noteq> [] \<Longrightarrow> CHR ''/'' \<notin> set name \<Longrightarrow> in_directory d (d @ ''/'' @ name)"
  by (simp add: in_directory_def)

lemma not_in_nonmalignant: "\<not> in_directory (P @ ''nonmalignant'') ((P @ ''cancer'') @ ''/'' @ name)"
  by (simp add: in_directory_def)

lemma not_in_cancer: "\<not> in_directory (P @ ''cancer'') ((P @ ''nonmalignant'') @ ''/'' @ name)"
  by (simp add: in_directory_def)

lemma process_row_write_paths:
  assumes "process_row env folder i row st = Inr st'"
    and "(p, d) \<in> set (writes_of (new_events st st'))"
  shows "\<exists>k. p = slice_image_path (new_image_location env row) i k"
proof (cases "first_entry env (original_image_path folder row)")
  case (Inl e)
  let ?msg = "Print (''Unable to work with file: '' @ original_image_path folder row
                     @ ''; moving on...'')"
  have "st' = emit st ?msg"
    using assms(1) process_row_skip [OF Inl, of i st] by simp
  then have "new_events st st' = [?msg]"
    by (simp add: new_events_def events_emit)
  then show ?thesis using assms(2) by simp
next
  case (Inr name)
  show ?thesis
  proof (cases "dcmread_pixel_array env (path_join (original_image_path folder row) name)")
    case (Inl e)
    then show ?thesis
      using assms(1) process_row_raise [OF Inr Inl, of i st] by simp
  next
    case vol: (Inr pixel_array)
    from process_row_writes [OF Inr vol, of i st] assms(1)
    have "writes_of (new_events st st') =
             map (\<lambda>k. (slice_image_path (new_image_location env row) i k, pixel_array ! k))
                 (filter (\<lambda>k. k < length pixel_array) [130, 134])"
      by simp
    with assms(2) show ?thesis by auto
  qed
qed

text \<open>
  C6: every image write of a row goes to a file directly in \<open>images/cancer\<close> under the
  working directory when the row's \<open>cancer\<close> is true, and directly in
  \<open>images/nonmalignant\<close> when it is false, and in neither case to a file in the other
  directory: the label alone decides the directory, and no row writes to both.
\<close>

theorem destination_by_cancer_label:
  assumes "process_row env folder i row st = Inr st'"
  shows "\<forall>(p, d) \<in> set (writes_of (new_events st st')).
           (cancer row \<longrightarrow>
              in_directory (path_join (getcwd env) ''images/cancer'') p \<and>
              \<not> in_directory (path_join (getcwd env) ''images/nonmalignant'') p) \<and>
           (\<not> cancer row \<longrightarrow>
              in_directory (path_join (getcwd env) ''images/nonmalignant'') p \<and>
              \<not> in_directory (path_join (getcwd env) ''images/cancer'') p)"
proof (clarify, intro conjI impI)
  fix p d
  assume w: "(p, d) \<in> set (writes_of (new_events st st'))"
  from process_row_write_paths [OF assms w]
  obtain k where p: "p = slice_image_path (new_image_location env row) i k" ..
  let ?P = "images_prefix (getcwd env)"
  {
    assume c: "cancer row"
    have loc: "new_image_location env row = ?P @ ''cancer''"
      using c by (simp add: new_image_location_def cancer_image_path_def path_join_cancer)
    have p': "p = (?P @ ''cancer'') @ ''/'' @ image_name i k"
      unfolding p loc by (rule slice_image_path_plain) simp_all
    show "in_directory (path_join (getcwd env) ''images/cancer'') p"
      unfolding path_join_cancer p' using image_name_plain by (intro in_directory_own) auto
    show "\<not> in_directory (path_join (getcwd env) ''images/nonmalignant'') p"
      unfolding path_join_nonmalignant p' by (rule not_in_nonmalignant)
  }
  {
    assume c: "\<not> cancer row"
    have loc: "new_image_location env row = ?P @ ''nonmalignant''"
      using c by (simp add: new_image_location_def nonmalignant_image_path_def path_join_nonmalignant)
    have p': "p = (?P @ ''nonmalignant'') @ ''/'' @ image_name i k"
      unfolding p loc by (rule slice_image_path_plain) simp_all
    show "in_directory (path_join (getcwd env) ''images/nonmalignant'') p"
      unfolding path_join_nonmalignant p' using image_name_plain by (intro in_directory_own) auto
    show "\<not> in_directory (path_join (getcwd env) ''images/cancer'') p"
      unfolding path_join_cancer p' by (rule not_in_cancer)
  }
qed

theorem destination_by_cancer_label_witness:
  "(\<exists>st'. process_row example_env ''/data'' 7 (example_row ''./studyA'' True) example_state = Inr st' \<and>
      map fst (writes_of (new_events example_state st')) =
        [''/home/u/images/cancer/image_7_130.jpg'', ''/home/u/images/cancer/image_7_134.jpg'']) \<and>
   in_directory ''/home/u/images/cancer'' ''/home/u/images/cancer/image_7_130.jpg'' \<and>
   \<not> in_directory ''/home/u/images/nonmalignant'' ''/home/u/images/cancer/image_7_130.jpg'' \<and>
   in_directory ''/home/u/images/nonmalignant'' ''/home/u/images/nonmalignant/image_2_130.jpg'' \<and>
   \<not> in_directory ''/home/u/images/cancer'' ''/home/u/images/nonmalignant/image_2_130.jpg''"
proof -
  obtain st1 where st1:
      "process_row example_env ''/data'' 7 (example_row ''./studyA'' True) example_state = Inr st1"
      "writes_of (new_events example_state st1) =
        [(''/home/u/images/cancer/image_7_130.jpg'', 130),
         (''/home/u/images/cancer/image_7_134.jpg'', 134)]"
    using process_row_writes [of example_env "''/data''" "example_row ''./studyA'' True" "''1-1.dcm''"
        "[0..<135]" 7 example_state, OF example_first_entry(1) example_dcmread(1)]
    by (auto simp: example_location example_slice_image_path)
  obtain st2 where st2:
      "process_row example_env ''/data'' 2 (example_row ''./studyC'' False) example_state = Inr st2"
      "writes_of (new_events example_state st2) =
        [(''/home/u/images/nonmalignant/image_2_130.jpg'', 130)]"
    using process_row_writes [of example_env "''/data''" "example_row ''./studyC'' False" "''1-1.dcm''"
        "[0..<132]" 2 example_state, OF example_first_entry(3) example_dcmread(3)]
    by (auto simp: example_location example_slice_image_path)
  have cwd: "path_join (getcwd example_env) ''images/cancer'' = ''/home/u/images/cancer''"
      "path_join (getcwd example_env) ''images/nonmalignant'' = ''/home/u/images/nonmalignant''"
    by (simp_all add: world_defs)
  have c: "cancer (example_row ''./studyA'' True)" "\<not> cancer (example_row ''./studyC'' False)"
    by (simp_all add: example_row_def)
  from destination_by_cancer_label [OF st1(1)] have
    "in_directory ''/home/u/images/cancer'' ''/home/u/images/cancer/image_7_130.jpg'' \<and>
     \<not> in_directory ''/home/u/images/nonmalignant'' ''/home/u/images/cancer/image_7_130.jpg''"
    unfolding st1(2) cwd using c(1) by simp
  moreover from destination_by_cancer_label [OF st2(1)] have
    "in_directory ''/home/u/images/nonmalignant'' ''/home/u/images/nonmalignant/image_2_130.jpg'' \<and>
     \<not> in_directory ''/home/u/images/cancer'' ''/home/u/images/nonmalignant/image_2_130.jpg''"
    unfolding st2(2) cwd using c(2) by simp
  moreover have "\<exists>st'. process_row example_env ''/data'' 7 (example_row ''./studyA'' True) example_state = Inr st' \<and>
      map fst (writes_of (new_events example_state st')) =
        [''/home/u/images/cancer/image_7_130.jpg'', ''/home/u/images/cancer/image_7_134.jpg'']"
    using st1 by simp
  ultimately show ?thesis by blast
qed

lemma paths_differ: "cancer_image_path \<noteq> nonmalignant_image_path"
  by (simp add: cancer_image_path_def nonmalignant_image_path_def)

text \<open>
  C8: in a run that returns, the two directories exist afterwards; each was made only
  if it did not exist, at most once, and before the first event of any row, and no row
  makes a directory. A second run from the state the first one left, whatever the
  frame and the world, starts with the loop directly: the directory step neither
  raises nor makes a directory, and if that run returns, the existing paths are the
  same and it has made no directory.
\<close>

theorem directory_creation_idempotent:
  assumes "create_image_datasets env cancer_df folder st = Inr st'"
  shows "path_exists st' cancer_image_path \<and> path_exists st' nonmalignant_image_path \<and>
    (\<exists>row_events.
       events st' = events st
         @ map Makedirs (filter (\<lambda>p. \<not> path_exists st p)
                           [cancer_image_path, nonmalignant_image_path])
         @ row_events \<and>
       makedirs_of row_events = []) \<and>
    (\<forall>env2 cancer_df2 folder2.
       create_image_datasets env2 cancer_df2 folder2 st' = rows_loop env2 folder2 0 cancer_df2 st' \<and>
       (\<forall>st''. create_image_datasets env2 cancer_df2 folder2 st' = Inr st'' \<longrightarrow>
          existing st'' = existing st' \<and> makedirs_of (new_events st' st'') = []))"
proof -
  from assms obtain st1 st2 where
      d1: "ensure_dir env cancer_image_path st = Inr st1" and
      d2: "ensure_dir env nonmalignant_image_path st1 = Inr st2" and
      loop: "rows_loop env folder 0 cancer_df st2 = Inr st'"
    by (auto simp: create_image_datasets_def split: sum.splits)
  note r1 = ensure_dir_result [OF d1] and r2 = ensure_dir_result [OF d2]
  from rows_loop_dirs [OF loop] obtain row_events where
      ex: "existing st' = existing st2" and
      ev: "events st' = events st2 @ row_events" and
      no: "makedirs_of row_events = []"
    by blast
  have same: "path_exists st1 nonmalignant_image_path = path_exists st nonmalignant_image_path"
    using r1 paths_differ by (auto simp: path_exists_def)
  have c: "path_exists st' cancer_image_path"
    using r1 r2 ex by (auto simp: path_exists_def)
  have n: "path_exists st' nonmalignant_image_path"
    using r2 ex by (auto simp: path_exists_def)
  have "events st2 = events st
         @ map Makedirs (filter (\<lambda>p. \<not> path_exists st p)
                           [cancer_image_path, nonmalignant_image_path])"
    using r1 r2 same by simp
  then have first: "\<exists>row_events.
       events st' = events st
         @ map Makedirs (filter (\<lambda>p. \<not> path_exists st p)
                           [cancer_image_path, nonmalignant_image_path])
         @ row_events \<and>
       makedirs_of row_events = []"
    using ev no by simp
  have again: "create_image_datasets env2 cancer_df2 folder2 st' = rows_loop env2 folder2 0 cancer_df2 st'"
    for env2 :: "'a os_env" and cancer_df2 folder2
    by (simp add: create_image_datasets_def ensure_dir_exists [OF c] ensure_dir_exists [OF n])
  have kept: "existing st'' = existing st' \<and> makedirs_of (new_events st' st'') = []"
    if "create_image_datasets env2 cancer_df2 folder2 st' = Inr st''"
    for env2 :: "'a os_env" and cancer_df2 folder2 st''
  proof -
    from that have "rows_loop env2 folder2 0 cancer_df2 st' = Inr st''"
      by (simp only: again)
    from rows_loop_dirs [OF this] obtain new where
        "existing st'' = existing st'" "events st'' = events st' @ new" "makedirs_of new = []"
      by blast
    then show ?thesis
      using new_events_append [of st'' st' new] by simp
  qed
  show ?thesis
    using c n first again kept by blast
qed

theorem directory_creation_idempotent_witness:
  "\<exists>st1 st2.
     create_image_datasets example_env [example_row ''./studyE'' False] ''/data'' example_state = Inr st1 \<and>
     create_image_datasets example_env [example_row ''./studyE'' False] ''/data'' st1 = Inr st2 \<and>
     makedirs_of (events st1) = [''images/cancer'', ''images/nonmalignant''] \<and>
     makedirs_of (events st2) = [''images/cancer'', ''images/nonmalignant''] \<and>
     existing st2 = existing st1"
proof -
  let ?df = "[example_row ''./studyE'' False]"
  let ?st1 = "\<lparr>existing = [''images/nonmalignant'', ''images/cancer''],
        events = [Makedirs ''images/cancer'', Makedirs ''images/nonmalignant'',
           Print ''Unable to work with file: /data/studyE; moving on...'']\<rparr> :: nat run_state"
  have first: "create_image_datasets example_env ?df ''/data'' example_state = Inr ?st1"
    by (simp add: create_image_datasets_def ensure_dir_def makedirs_def path_exists_def emit_def
        process_row_def world_defs)
  from directory_creation_idempotent [OF first] have again:
      "create_image_datasets example_env ?df ''/data'' ?st1 = rows_loop example_env ''/data'' 0 ?df ?st1"
    and kept: "\<forall>st''. create_image_datasets example_env ?df ''/data'' ?st1 = Inr st'' \<longrightarrow>
          existing st'' = existing ?st1 \<and> makedirs_of (new_events ?st1 st'') = []"
    by blast+
  obtain st2 where st2: "rows_loop example_env ''/data'' 0 ?df ?st1 = Inr st2"
      "events st2 = events ?st1 @ [Print ''Unable to work with file: /data/studyE; moving on...'']"
    by (simp add: process_row_def world_defs emit_def)
  have "create_image_datasets example_env ?df ''/data'' ?st1 = Inr st2"
    using again st2(1) by simp
  moreover from this kept have "existing st2 = existing ?st1" by blast
  moreover have "makedirs_of (events st2) = [''images/cancer'', ''images/nonmalignant'']"
    by (simp add: st2(2))
  ultimately show ?thesis
    using first by (intro exI [of _ ?st1] exI [of _ st2]) simp
qed

end
